theory Spec2Isabelle
  imports Main
begin

section \<open>Python values used by \<^verbatim>\<open>test1.py\<close>\<close>

text \<open>
  Every exception the script can meet is an instance of \<^verbatim>\<open>Exception\<close>, so each one is
  caught by an \<^verbatim>\<open>except Exception\<close> clause. The constructor is the class, the argument
  the message that \<^verbatim>\<open>str(e)\<close> prints.
\<close>

datatype exn =
    FileNotFoundError string
  | PermissionError string
  | AttributeError string
  | BoxAPIError string
  | GoProError string

fun str_exn :: "exn \<Rightarrow> string" where
  "str_exn (FileNotFoundError m) = m"
| "str_exn (PermissionError m) = m"
| "str_exn (AttributeError m) = m"
| "str_exn (BoxAPIError m) = m"
| "str_exn (GoProError m) = m"

text \<open>
  A value that is either \<^verbatim>\<open>None\<close> or a \<^verbatim>\<open>str\<close> is a \<open>string option\<close>.
  \<^verbatim>\<open>None\<close> and the empty string are falsy; \<^verbatim>\<open>a or b\<close> is \<^verbatim>\<open>a\<close> when
  \<^verbatim>\<open>a\<close> is truthy and \<^verbatim>\<open>b\<close> otherwise.
\<close>

definition truthy :: "string option \<Rightarrow> bool" where
  "truthy v = (case v of None \<Rightarrow> False | Some s \<Rightarrow> s \<noteq> [])"

definition py_or :: "string option \<Rightarrow> string option \<Rightarrow> string option" where
  "py_or a b = (if truthy a then a else b)"

subsection \<open>\<^verbatim>\<open>os.path\<close> on a POSIX system and \<^verbatim>\<open>str.split\<close>\<close>

definition sep :: char where
  "sep = CHR ''/''"

text \<open>\<^verbatim>\<open>posixpath.basename(p)\<close> is \<^verbatim>\<open>p[p.rfind('/') + 1:]\<close>: what follows the last slash.\<close>

definition basename :: "string \<Rightarrow> string" where
  "basename p = rev (takeWhile (\<lambda>c. c \<noteq> sep) (rev p))"

text \<open>\<^verbatim>\<open>posixpath.join(a, b)\<close> with two arguments.\<close>

definition join :: "string \<Rightarrow> string \<Rightarrow> string" where
  "join a b =
     (if b \<noteq> [] \<and> hd b = sep then b
      else if a = [] \<or> last a = sep then a @ b
      else a @ [sep] @ b)"

text \<open>\<^verbatim>\<open>s.split(c)\<close> for a one-character separator; the result is never empty.\<close>

fun str_split :: "char \<Rightarrow> string \<Rightarrow> string list" where
  "str_split c [] = [[]]"
| "str_split c (x # xs) =
     (if x = c then [] # str_split c xs
      else (case str_split c xs of
              [] \<Rightarrow> [[x]]
            | y # ys \<Rightarrow> (x # y) # ys))"

section \<open>Objects of the two vendor SDKs\<close>

datatype ccg_config = CCGConfig "string option" "string option" "string option"

datatype box_auth = BoxCCGAuth ccg_config

datatype box_client = BoxClient box_auth

datatype upload_file_attributes_parent_field = UploadFileAttributesParentField string

datatype upload_file_attributes =
  UploadFileAttributes string upload_file_attributes_parent_field

text \<open>A file object returned by \<^verbatim>\<open>open(path, mode)\<close>: it keeps the path and the
  mode it was opened with (its \<^verbatim>\<open>name\<close> and \<^verbatim>\<open>mode\<close> attributes).\<close>

datatype file_obj = FileObj string string

text \<open>The descriptor of an uploaded file: the script reads its \<^verbatim>\<open>name\<close> and \<^verbatim>\<open>id\<close>.\<close>

record uploaded_file =
  uf_id :: string
  uf_name :: string

text \<open>The camera's manifest: \<^verbatim>\<open>resp.data.media\<close> is a list of groups, each with a
  \<^verbatim>\<open>file_system\<close> list of items that carry a \<^verbatim>\<open>filename\<close>.\<close>

record media_item =
  filename :: string

record media_group =
  file_system :: "media_item list"

datatype gopro = WirelessGoPro

section \<open>Effects\<close>

text \<open>
  What the script prints, one constructor per \<^verbatim>\<open>print\<close> statement that the model
  reaches; \<open>render\<close> gives the text of the f-string. \<open>Msg_error_uploading_large\<close> is the
  line of \<^verbatim>\<open>upload_large_file_to_folder\<close>, \<open>Msg_error_uploading\<close> the line with the same
  wording of \<^verbatim>\<open>upload_all_files_to_box\<close>.
\<close>

datatype message =
    Msg_client "box_client option"
  | Msg_authenticated
  | Msg_auth_error exn
  | Msg_failed_to_upload string exn
  | Msg_error_uploading_large "string option" exn
  | Msg_error_uploading string exn
  | Msg_uploading_small string
  | Msg_uploaded string string
  | Msg_uploading string
  | Msg_connected
  | Msg_downloading string string
  | Msg_downloaded string
  | Msg_deleting
  | Msg_all_deleted

definition quoted :: "string \<Rightarrow> string" where
  "quoted s = CHR 0x27 # s @ [CHR 0x27]"

fun repr_client :: "box_client option \<Rightarrow> string" where
  "repr_client None = ''None''"
| "repr_client (Some c) = ''<box_sdk_gen.client.BoxClient object>''"

fun str_opt :: "string option \<Rightarrow> string" where
  "str_opt None = ''None''"
| "str_opt (Some s) = s"

fun render :: "message \<Rightarrow> string" where
  "render (Msg_client c) = ''self.client = '' @ repr_client c"
| "render Msg_authenticated = ''Authenticated with Box using CCG flow.''"
| "render (Msg_auth_error e) = ''Error during authentication: '' @ str_exn e"
| "render (Msg_failed_to_upload p e) =
     ''Failed to upload file '' @ quoted p @ '': '' @ str_exn e"
| "render (Msg_error_uploading_large n e) =
     ''Error uploading file '' @ quoted (str_opt n) @ '': '' @ str_exn e"
| "render (Msg_error_uploading n e) =
     ''Error uploading file '' @ quoted n @ '': '' @ str_exn e"
| "render (Msg_uploading_small p) = ''Uploading small file '' @ quoted p @ '' to Box...''"
| "render (Msg_uploaded n i) = ''Uploaded file '' @ quoted n @ '' to Box with ID: '' @ i"
| "render (Msg_uploading p) = ''Uploading '' @ quoted p @ '' to Box...''"
| "render Msg_connected = ''Connected to GoPro''"
| "render (Msg_downloading p l) = ''Downloading '' @ p @ '' to '' @ l @ ''...''"
| "render (Msg_downloaded l) = ''Downloaded '' @ l"
| "render Msg_deleting = ''Deleting all media on camera...''"
| "render Msg_all_deleted = ''All media deleted from camera.''"

text \<open>Calls that leave the script: the operating system and the two SDKs.\<close>

datatype call =
    Getsize string
  | Open string string
  | Close file_obj
  | New_BoxCCGAuth ccg_config
  | New_BoxClient box_auth
  | Upload_file upload_file_attributes file_obj
  | Upload_big_file file_obj "string option" int string
  | GoPro_enter
  | GoPro_exit
  | Get_media_list
  | Download_file string string
  | Delete_all

text \<open>An event of a run: a printed line, or an outside call with the exception it raised
  (\<open>None\<close> when it returned).\<close>

datatype event = Print message | Ext call "exn option"

text \<open>
  The outside world is a state of type \<open>'w\<close>, which every outside call may read and
  change. The environment gives the behaviour of each call: it returns a value or raises.
  \<open>os_getenv\<close> is the process environment as read once when the module is loaded (after
  \<^verbatim>\<open>dotenv.load_dotenv()\<close>). \<open>os_walk\<close> is the list of \<^verbatim>\<open>(root, dirs, files)\<close>
  triples of \<^verbatim>\<open>os.walk\<close>, which reports no error of its own.
\<close>

record 'w env =
  os_getenv :: "string \<Rightarrow> string option"
  os_path_getsize :: "string \<Rightarrow> 'w \<Rightarrow> (exn + int) \<times> 'w"
  os_walk :: "string \<Rightarrow> 'w \<Rightarrow> (string \<times> string list \<times> string list) list"
  builtin_open :: "string \<Rightarrow> string \<Rightarrow> 'w \<Rightarrow> (exn + unit) \<times> 'w"
  file_close :: "file_obj \<Rightarrow> 'w \<Rightarrow> (exn + unit) \<times> 'w"
  new_BoxCCGAuth :: "ccg_config \<Rightarrow> 'w \<Rightarrow> (exn + box_auth) \<times> 'w"
  new_BoxClient :: "box_auth \<Rightarrow> 'w \<Rightarrow> (exn + box_client) \<times> 'w"
  uploads_upload_file ::
    "box_client \<Rightarrow> upload_file_attributes \<Rightarrow> file_obj \<Rightarrow> 'w \<Rightarrow> (exn + uploaded_file) \<times> 'w"
  chunked_uploads_upload_big_file ::
    "box_client \<Rightarrow> file_obj \<Rightarrow> string option \<Rightarrow> int \<Rightarrow> string \<Rightarrow> 'w
       \<Rightarrow> (exn + uploaded_file) \<times> 'w"
  gopro_aenter :: "'w \<Rightarrow> (exn + gopro) \<times> 'w"
  gopro_aexit :: "gopro \<Rightarrow> 'w \<Rightarrow> (exn + unit) \<times> 'w"
  get_media_list :: "gopro \<Rightarrow> 'w \<Rightarrow> (exn + media_group list) \<times> 'w"
  download_file :: "gopro \<Rightarrow> string \<Rightarrow> string \<Rightarrow> 'w \<Rightarrow> (exn + unit) \<times> 'w"
  delete_all :: "gopro \<Rightarrow> 'w \<Rightarrow> (exn + unit) \<times> 'w"

text \<open>
  A piece of the script started in a world returns normally (\<open>Inr\<close>) or raises (\<open>Inl\<close>),
  leaves a world, and has produced a list of events in the order they happened.
\<close>

type_synonym ('w, 'a) io = "'w \<Rightarrow> (exn + 'a) \<times> 'w \<times> event list"

definition io_return :: "'a \<Rightarrow> ('w, 'a) io" where
  "io_return x = (\<lambda>w. (Inr x, w, []))"

definition io_raise :: "exn \<Rightarrow> ('w, 'a) io" where
  "io_raise e = (\<lambda>w. (Inl e, w, []))"

definition io_bind :: "('w, 'a) io \<Rightarrow> ('a \<Rightarrow> ('w, 'b) io) \<Rightarrow> ('w, 'b) io" where
  "io_bind m f = (\<lambda>w.
     case m w of
       (Inl e, w1, t1) \<Rightarrow> (Inl e, w1, t1)
     | (Inr x, w1, t1) \<Rightarrow> (case f x w1 of (r, w2, t2) \<Rightarrow> (r, w2, t1 @ t2)))"

text \<open>\<^verbatim>\<open>try: m  except Exception as e: h(e)\<close>\<close>

definition try_except :: "('w, 'a) io \<Rightarrow> (exn \<Rightarrow> ('w, 'a) io) \<Rightarrow> ('w, 'a) io" where
  "try_except m h = (\<lambda>w.
     case m w of
       (Inl e, w1, t1) \<Rightarrow> (case h e w1 of (r, w2, t2) \<Rightarrow> (r, w2, t1 @ t2))
     | (Inr x, w1, t1) \<Rightarrow> (Inr x, w1, t1))"

text \<open>
  The body of a \<^verbatim>\<open>with\<close> block followed by the manager's exit, which runs however the
  body ended and suppresses nothing: an exception of the exit replaces the body's outcome.
\<close>

definition with_exit :: "('w, 'a) io \<Rightarrow> ('w, unit) io \<Rightarrow> ('w, 'a) io" where
  "with_exit body exit = (\<lambda>w.
     case body w of
       (r, w1, t1) \<Rightarrow>
         (case exit w1 of
            (Inl e, w2, t2) \<Rightarrow> (Inl e, w2, t1 @ t2)
          | (Inr u, w2, t2) \<Rightarrow> (r, w2, t1 @ t2)))"

definition print :: "message \<Rightarrow> ('w, unit) io" where
  "print m = (\<lambda>w. (Inr (), w, [Print m]))"

definition outcome :: "exn + 'a \<Rightarrow> exn option" where
  "outcome r = (case r of Inl e \<Rightarrow> Some e | Inr x \<Rightarrow> None)"

definition ext :: "call \<Rightarrow> ('w \<Rightarrow> (exn + 'a) \<times> 'w) \<Rightarrow> ('w, 'a) io" where
  "ext c f = (\<lambda>w. case f w of (r, w1) \<Rightarrow> (r, w1, [Ext c (outcome r)]))"

text \<open>\<^verbatim>\<open>open(path, mode)\<close>: the world decides whether the file opens.\<close>

definition open_file :: "'w env \<Rightarrow> string \<Rightarrow> string \<Rightarrow> ('w, file_obj) io" where
  "open_file env path mode =
     io_bind (ext (Open path mode) (builtin_open env path mode)) (\<lambda>u.
     io_return (FileObj path mode))"

text \<open>A \<^verbatim>\<open>for\<close> loop over a list: the first exception of the body ends it.\<close>

fun for_each :: "('a \<Rightarrow> ('w, unit) io) \<Rightarrow> 'a list \<Rightarrow> ('w, unit) io" where
  "for_each body [] = io_return ()"
| "for_each body (x # xs) = io_bind (body x) (\<lambda>u. for_each body xs)"

section \<open>Class \<^verbatim>\<open>Box\<close>\<close>

text \<open>The module constants, read from the environment when the module is loaded.\<close>

definition BOX_DEV_TOKEN :: "'w env \<Rightarrow> string option" where
  "BOX_DEV_TOKEN env = os_getenv env ''BOX_DEV_TOKEN''"

definition BOX_CLIENT_ID :: "'w env \<Rightarrow> string option" where
  "BOX_CLIENT_ID env = os_getenv env ''BOX_CLIENT_ID''"

definition BOX_CLIENT_SECRET :: "'w env \<Rightarrow> string option" where
  "BOX_CLIENT_SECRET env = os_getenv env ''BOX_CLIENT_SECRET''"

definition BOX_ENTERPRISE_ID :: "'w env \<Rightarrow> string option" where
  "BOX_ENTERPRISE_ID env = os_getenv env ''BOX_ENTERPRISE_ID''"

record box =
  client_id :: "string option"
  client_secret :: "string option"
  enterprise_id :: "string option"
  client :: "box_client option"
  auth :: "box_auth option"
  videos_folder_box_id :: string
  box_road_health_folder_id :: string
  box_metadata_template_key :: string

text \<open>\<^verbatim>\<open>authenticate\<close> sets \<^verbatim>\<open>self.auth\<close> and \<^verbatim>\<open>self.client\<close>; it logs and re-raises.\<close>

definition authenticate :: "'w env \<Rightarrow> box \<Rightarrow> ('w, box) io" where
  "authenticate env self =
     try_except
       (let ccg = CCGConfig (client_id self) (client_secret self) (enterprise_id self) in
        io_bind (ext (New_BoxCCGAuth ccg) (new_BoxCCGAuth env ccg)) (\<lambda>a.
        io_bind (ext (New_BoxClient a) (new_BoxClient env a)) (\<lambda>c.
        io_bind (print Msg_authenticated) (\<lambda>u.
        io_return (self\<lparr>auth := Some a, client := Some c\<rparr>)))))
       (\<lambda>e. io_bind (print (Msg_auth_error e)) (\<lambda>u. io_raise e))"

text \<open>\<^verbatim>\<open>Box(client_id, client_secret, enterprise_id)\<close>: the constructor.\<close>

definition Box_init ::
  "'w env \<Rightarrow> string option \<Rightarrow> string option \<Rightarrow> string option \<Rightarrow> ('w, box) io" where
  "Box_init env client_id_arg client_secret_arg enterprise_id_arg =
     (let self = \<lparr>client_id = py_or client_id_arg (BOX_CLIENT_ID env),
                  client_secret = py_or client_secret_arg (BOX_CLIENT_SECRET env),
                  enterprise_id = py_or enterprise_id_arg (BOX_ENTERPRISE_ID env),
                  client = None,
                  auth = None,
                  videos_folder_box_id = ''303832684570'',
                  box_road_health_folder_id = ''309237796489'',
                  box_metadata_template_key = ''folderWatcherMetadata''\<rparr> in
      io_bind (authenticate env self) (\<lambda>self1.
      io_bind (print (Msg_client (client self1))) (\<lambda>u.
      io_return self1)))"

text \<open>Reading \<^verbatim>\<open>self.client.uploads\<close>: an \<^verbatim>\<open>AttributeError\<close> when the client is
  \<^verbatim>\<open>None\<close>.\<close>

definition self_client :: "box \<Rightarrow> ('w, box_client) io" where
  "self_client self =
     (case client self of
        None \<Rightarrow> io_raise (AttributeError ''NoneType object has no attribute'')
      | Some c \<Rightarrow> io_return c)"

text \<open>
  \<^verbatim>\<open>upload_small_file_to_folder(file_path, folder_id="0", new_name=None)\<close>. The argument
  \<open>folder_id_arg\<close> is \<open>None\<close> when the caller leaves \<^verbatim>\<open>folder_id\<close> out, so that the
  default of the signature applies. The whole body is inside the \<^verbatim>\<open>try\<close>.
\<close>

definition upload_small_file_to_folder ::
  "'w env \<Rightarrow> box \<Rightarrow> string \<Rightarrow> string option \<Rightarrow> string option
     \<Rightarrow> ('w, uploaded_file option) io" where
  "upload_small_file_to_folder env self file_path folder_id_arg new_name =
     (let folder_id = (case folder_id_arg of None \<Rightarrow> ''0'' | Some f \<Rightarrow> f) in
      try_except
        (let new_file_name =
               (case new_name of
                  None \<Rightarrow> basename file_path
                | Some n \<Rightarrow> if n = [] then basename file_path else n) in
         io_bind (open_file env file_path ''rb'') (\<lambda>file.
         with_exit
           (io_bind (self_client self) (\<lambda>c.
            let attrs = UploadFileAttributes new_file_name
                          (UploadFileAttributesParentField folder_id) in
            io_bind (ext (Upload_file attrs file) (uploads_upload_file env c attrs file))
              (\<lambda>uploaded_file. io_return (Some uploaded_file))))
           (ext (Close file) (file_close env file))))
        (\<lambda>e. io_bind (print (Msg_failed_to_upload file_path e)) (\<lambda>u. io_return None)))"

text \<open>
  \<^verbatim>\<open>upload_large_file_to_folder(file_path, file_name, parent_folder_id)\<close>. The size is
  read before the \<^verbatim>\<open>try\<close> is entered.
\<close>

definition upload_large_file_to_folder ::
  "'w env \<Rightarrow> box \<Rightarrow> string \<Rightarrow> string option \<Rightarrow> string \<Rightarrow> ('w, uploaded_file option) io" where
  "upload_large_file_to_folder env self file_path file_name parent_folder_id =
     io_bind (ext (Getsize file_path) (os_path_getsize env file_path)) (\<lambda>file_size.
     try_except
       (io_bind (open_file env file_path ''rb'') (\<lambda>file_stream.
        io_bind
          (with_exit
             (io_bind (self_client self) (\<lambda>c.
              ext (Upload_big_file file_stream file_name file_size parent_folder_id)
                (chunked_uploads_upload_big_file env c file_stream file_name file_size
                   parent_folder_id)))
             (ext (Close file_stream) (file_close env file_stream)))
          (\<lambda>uploaded_file. io_return (Some uploaded_file))))
       (\<lambda>e. io_bind (print (Msg_error_uploading_large file_name e)) (\<lambda>u. io_return None)))"

definition get_file_size :: "'w env \<Rightarrow> box \<Rightarrow> string \<Rightarrow> ('w, int) io" where
  "get_file_size env self file_path = ext (Getsize file_path) (os_path_getsize env file_path)"

text \<open>
  \<^verbatim>\<open>upload_file_to_box(source_file_path, dest_file_name, dest_folder_id)\<close>. A descriptor is
  truthy and \<^verbatim>\<open>None\<close> is falsy, so the last line is printed for a descriptor only.
\<close>

definition upload_file_to_box ::
  "'w env \<Rightarrow> box \<Rightarrow> string \<Rightarrow> string option \<Rightarrow> string \<Rightarrow> ('w, unit) io" where
  "upload_file_to_box env self source_file_path dest_file_name dest_folder_id =
     io_bind (get_file_size env self source_file_path) (\<lambda>file_size.
     io_bind
       (if file_size < 20 * 1024 * 1024 then
          io_bind (print (Msg_uploading_small source_file_path)) (\<lambda>u.
          upload_small_file_to_folder env self source_file_path (Some dest_folder_id)
            dest_file_name)
        else
          upload_large_file_to_folder env self source_file_path dest_file_name
            dest_folder_id)
       (\<lambda>uploaded_file.
          case uploaded_file of
            None \<Rightarrow> io_return ()
          | Some d \<Rightarrow> print (Msg_uploaded (uf_name d) (uf_id d))))"


section \<open>The capture-acquisition flow\<close>

text \<open>The download loop of \<^verbatim>\<open>main\<close> (the two nested \<^verbatim>\<open>for\<close> statements).\<close>

definition download_each :: "'w env \<Rightarrow> gopro \<Rightarrow> media_group list \<Rightarrow> ('w, unit) io" where
  "download_each env g media_list =
     for_each
       (\<lambda>group.
          for_each
            (\<lambda>fs.
               let path = filename fs;
                   local_name = ''to_upload/'' @ last (str_split sep path) in
               io_bind (print (Msg_downloading path local_name)) (\<lambda>u.
               io_bind (ext (Download_file path local_name)
                          (download_file env g path local_name)) (\<lambda>u.
               print (Msg_downloaded local_name))))
            (file_system group))
       media_list"

text \<open>\<^verbatim>\<open>main\<close>: everything runs inside \<^verbatim>\<open>async with WirelessGoPro() as gopro\<close>.\<close>

definition main :: "'w env \<Rightarrow> ('w, unit) io" where
  "main env =
     io_bind (ext GoPro_enter (gopro_aenter env)) (\<lambda>g.
     with_exit
       (io_bind (print Msg_connected) (\<lambda>u.
        io_bind (ext Get_media_list (get_media_list env g)) (\<lambda>media_list.
        io_bind (download_each env g media_list) (\<lambda>u.
        io_bind (print Msg_deleting) (\<lambda>u.
        io_bind (ext Delete_all (delete_all env g)) (\<lambda>u.
        print Msg_all_deleted))))))
       (ext GoPro_exit (gopro_aexit env g)))"

section \<open>Observations on a run\<close>

text \<open>Which of the two upload operations of the storage SDK an event is.\<close>

datatype upload_route = Single_request | Chunked

fun route_of_event :: "event \<Rightarrow> upload_route option" where
  "route_of_event (Ext (Upload_file a f) x) = Some Single_request"
| "route_of_event (Ext (Upload_big_file f n s p) x) = Some Chunked"
| "route_of_event ev = None"




text \<open>The folder a single-request upload call puts the file into.\<close>

fun parent_folder :: "event \<Rightarrow> string option" where
  "parent_folder (Ext (Upload_file (UploadFileAttributes n (UploadFileAttributesParentField i)) f) x)
     = Some i"
| "parent_folder ev = None"

text \<open>
  Events that change the local file system: opening a file in a mode other than a read
  mode, and the camera download, which writes its \<^verbatim>\<open>local_file\<close>.
\<close>

fun mutates_local_fs :: "event \<Rightarrow> bool" where
  "mutates_local_fs (Ext (Open p m) x) = (m \<noteq> ''rb'' \<and> m \<noteq> ''r'')"
| "mutates_local_fs (Ext (Download_file c l) x) = True"
| "mutates_local_fs ev = False"




text \<open>The camera files whose download returned, the outside calls that raised, and the
  bulk-delete commands, in the order of the run.\<close>

fun downloaded :: "event list \<Rightarrow> (string \<times> string) list" where
  "downloaded [] = []"
| "downloaded (Ext (Download_file c l) None # t) = (c, l) # downloaded t"
| "downloaded (ev # t) = downloaded t"

fun failures :: "event list \<Rightarrow> (call \<times> exn) list" where
  "failures [] = []"
| "failures (Ext c (Some e) # t) = (c, e) # failures t"
| "failures (ev # t) = failures t"

fun deletes :: "event list \<Rightarrow> event list" where
  "deletes [] = []"
| "deletes (Ext Delete_all x # t) = Ext Delete_all x # deletes t"
| "deletes (ev # t) = deletes t"

text \<open>
  What a piece of the download loop has done: it printed and downloaded only; if it returned,
  the downloads that returned are \<open>done\<close> and no call raised; if it raised, exactly one
  call raised, a download, with the exception of the outcome.
\<close>

definition download_run :: "exn + unit \<Rightarrow> event list \<Rightarrow> (string \<times> string) list \<Rightarrow> bool" where
  "download_run r t done =
     ((\<forall>ev \<in> set t. (\<exists>m. ev = Print m) \<or> (\<exists>c l x. ev = Ext (Download_file c l) x))
      \<and> (case r of
            Inr u \<Rightarrow> downloaded t = done \<and> failures t = []
          | Inl e \<Rightarrow> (\<exists>c l. failures t = [(Download_file c l, e)])))"

text \<open>The pairs of camera file and local file that \<^verbatim>\<open>main\<close> downloads for a manifest.\<close>

definition manifest_files :: "media_group list \<Rightarrow> (string \<times> string) list" where
  "manifest_files media_list =
     map (\<lambda>fs. (filename fs, ''to_upload/'' @ last (str_split sep (filename fs))))
       (concat (map file_system media_list))"

section \<open>A directory tree and \<^verbatim>\<open>os.walk\<close>\<close>

text \<open>
  A directory's entries are files and directories. \<^verbatim>\<open>os.walk(top)\<close> yields, top down,
  the triple of a directory and then the triples of its subdirectories, each under the
  path \<^verbatim>\<open>join(top, name)\<close>.
\<close>

datatype fs_node = File string | Dir string "fs_node list"

fun dirnames :: "fs_node list \<Rightarrow> string list" where
  "dirnames [] = []"
| "dirnames (File n # es) = dirnames es"
| "dirnames (Dir n sub # es) = n # dirnames es"

fun filenames :: "fs_node list \<Rightarrow> string list" where
  "filenames [] = []"
| "filenames (File n # es) = n # filenames es"
| "filenames (Dir n sub # es) = filenames es"

fun walk_tree :: "string \<Rightarrow> fs_node list \<Rightarrow> (string \<times> string list \<times> string list) list" where
  "walk_tree topdir entries =
     (topdir, dirnames entries, filenames entries)
       # concat (map (\<lambda>d. case d of
                             File n \<Rightarrow> []
                           | Dir n sub \<Rightarrow> walk_tree (join topdir n) sub) entries)"

declare walk_tree.simps [simp del]



section \<open>A sample world\<close>

text \<open>
  A staging directory with files at three depths: an empty file, one a byte below the
  threshold, one exactly at it, a name that is listed but cannot be read, and a file the
  storage service rejects.
\<close>

definition demo_tree :: "fs_node list" where
  "demo_tree =
     [File ''empty.bin'',
      File ''gone.mp4'',
      Dir ''clips''
        [File ''under.mp4'',
         Dir ''raw'' [File ''exact.mp4''],
         File ''rejected.mp4'']]"

definition demo_sizes :: "(string \<times> int) list" where
  "demo_sizes =
     [(''to_upload/empty.bin'', 0),
      (''to_upload/clips/under.mp4'', 20971519),
      (''to_upload/clips/raw/exact.mp4'', 20971520),
      (''to_upload/clips/rejected.mp4'', 7)]"

definition demo_media :: "media_group list" where
  "demo_media =
     [\<lparr>file_system = [\<lparr>filename = ''100GOPRO/GX010001.MP4''\<rparr>,
                      \<lparr>filename = ''100GOPRO/GX010002.MP4''\<rparr>]\<rparr>,
      \<lparr>file_system = [\<lparr>filename = ''101GOPRO/GOPR0003.JPG''\<rparr>]\<rparr>]"

definition demo_env :: "unit env" where
  "demo_env =
     \<lparr>os_getenv = map_of [(''BOX_CLIENT_ID'', ''env-id''), (''BOX_CLIENT_SECRET'', ''env-secret'')],
      os_path_getsize = (\<lambda>p w.
        case map_of demo_sizes p of
          None \<Rightarrow> (Inl (FileNotFoundError p), w)
        | Some n \<Rightarrow> (Inr n, w)),
      os_walk = (\<lambda>p w. walk_tree p demo_tree),
      builtin_open = (\<lambda>p m w.
        case map_of demo_sizes p of
          None \<Rightarrow> (Inl (FileNotFoundError p), w)
        | Some n \<Rightarrow> (Inr (), w)),
      file_close = (\<lambda>f w. (Inr (), w)),
      new_BoxCCGAuth = (\<lambda>c w. (Inr (BoxCCGAuth c), w)),
      new_BoxClient = (\<lambda>a w. (Inr (BoxClient a), w)),
      uploads_upload_file = (\<lambda>c a f w.
        case a of UploadFileAttributes n par \<Rightarrow>
          if n = ''rejected.mp4'' then (Inl (BoxAPIError ''item_name_in_use''), w)
          else (Inr \<lparr>uf_id = ''11'', uf_name = n\<rparr>, w)),
      chunked_uploads_upload_big_file = (\<lambda>c f n s p w.
        (Inr \<lparr>uf_id = ''12'', uf_name = str_opt n\<rparr>, w)),
      gopro_aenter = (\<lambda>w. (Inr WirelessGoPro, w)),
      gopro_aexit = (\<lambda>g w. (Inr (), w)),
      get_media_list = (\<lambda>g w. (Inr demo_media, w)),
      download_file = (\<lambda>g c l w.
        if c = ''100GOPRO/GX010002.MP4'' then (Inl (GoProError ''timeout''), w)
        else (Inr (), w)),
      delete_all = (\<lambda>g w. (Inr (), w))\<rparr>"

text \<open>The same world with a camera whose downloads all succeed.\<close>

definition demo_env_ok :: "unit env" where
  "demo_env_ok = demo_env\<lparr>download_file := (\<lambda>g c l w. (Inr (), w))\<rparr>"

text \<open>The object that \<^verbatim>\<open>Box()\<close> builds in the sample world.\<close>

definition demo_box :: box where
  "demo_box =
     \<lparr>client_id = Some ''env-id'',
      client_secret = Some ''env-secret'',
      enterprise_id = None,
      client = Some (BoxClient (BoxCCGAuth (CCGConfig (Some ''env-id'') (Some ''env-secret'') None))),
      auth = Some (BoxCCGAuth (CCGConfig (Some ''env-id'') (Some ''env-secret'') None)),
      videos_folder_box_id = ''303832684570'',
      box_road_health_folder_id = ''309237796489'',
      box_metadata_template_key = ''folderWatcherMetadata''\<rparr>"

section \<open>Unfolding the effect combinators\<close>

lemmas io_defs =
  io_return_def io_raise_def io_bind_def try_except_def with_exit_def print_def ext_def
  outcome_def open_file_def self_client_def get_file_size_def


text \<open>The constructor in the sample world.\<close>

lemma demo_init:
  "Box_init demo_env None None None () =
     (Inr demo_box, (),
      [Ext (New_BoxCCGAuth (CCGConfig (Some ''env-id'') (Some ''env-secret'') None)) None,
       Ext (New_BoxClient (BoxCCGAuth (CCGConfig (Some ''env-id'') (Some ''env-secret'') None)))
         None,
       Print Msg_authenticated,
       Print (Msg_client (client demo_box))])"
  by (simp add: Box_init_def authenticate_def io_defs demo_env_def demo_box_def py_or_def
      truthy_def BOX_CLIENT_ID_def BOX_CLIENT_SECRET_def BOX_ENTERPRISE_ID_def Let_def)

section \<open>The two upload helpers\<close>

lemma small_never_raises:
  "\<exists>d w1 t. upload_small_file_to_folder env self p fo nm w = (Inr d, w1, t)"
  by (auto simp: upload_small_file_to_folder_def io_defs Let_def
      split: prod.splits sum.splits option.splits)

lemma small_events:
  assumes "upload_small_file_to_folder env self p fo nm w = (r, w1, t)" and "ev \<in> set t"
  shows "(\<exists>x. ev = Ext (Open p ''rb'') x)
       \<or> (\<exists>x. ev = Ext (Upload_file (UploadFileAttributes
              (case nm of None \<Rightarrow> basename p | Some n \<Rightarrow> if n = [] then basename p else n)
              (UploadFileAttributesParentField (case fo of None \<Rightarrow> ''0'' | Some f \<Rightarrow> f)))
              (FileObj p ''rb'')) x)
       \<or> (\<exists>x. ev = Ext (Close (FileObj p ''rb'')) x)
       \<or> (\<exists>e. ev = Print (Msg_failed_to_upload p e))"
  using assms
  by (auto simp: upload_small_file_to_folder_def io_defs Let_def
      split: prod.splits sum.splits option.splits if_splits)

lemma large_events:
  assumes "upload_large_file_to_folder env self p nm f w = (r, w1, t)" and "ev \<in> set t"
  shows "(\<exists>x. ev = Ext (Getsize p) x)
       \<or> (\<exists>x. ev = Ext (Open p ''rb'') x)
       \<or> (\<exists>x n. ev = Ext (Upload_big_file (FileObj p ''rb'') nm n f) x)
       \<or> (\<exists>x. ev = Ext (Close (FileObj p ''rb'')) x)
       \<or> (\<exists>e. ev = Print (Msg_error_uploading_large nm e))"
  using assms
  by (auto simp: upload_large_file_to_folder_def io_defs Let_def
      split: prod.splits sum.splits option.splits if_splits)

lemma large_size_fails:
  assumes "os_path_getsize env p w = (Inl e, w1)"
  shows "upload_large_file_to_folder env self p nm f w = (Inl e, w1, [Ext (Getsize p) (Some e)])"
  using assms by (simp add: upload_large_file_to_folder_def io_defs)

lemma large_raises_only_size:
  assumes "upload_large_file_to_folder env self p nm f w = (Inl e, w1, t)"
  shows "os_path_getsize env p w = (Inl e, w1) \<and> t = [Ext (Getsize p) (Some e)]"
  using assms
  by (auto simp: upload_large_file_to_folder_def io_defs Let_def
      split: prod.splits sum.splits option.splits if_splits)

section \<open>The router\<close>

lemma router_small:
  assumes "os_path_getsize env p w = (Inr n, w1)" and "n < 20971520"
    and "upload_small_file_to_folder env self p (Some f) nm w1 = (Inr d, w2, t2)"
  shows "upload_file_to_box env self p nm f w =
           (Inr (), w2, Ext (Getsize p) None # Print (Msg_uploading_small p) # t2 @
              (case d of None \<Rightarrow> [] | Some u \<Rightarrow> [Print (Msg_uploaded (uf_name u) (uf_id u))]))"
  using assms
  by (simp add: upload_file_to_box_def io_defs split: option.splits)

lemma router_large:
  assumes "os_path_getsize env p w = (Inr n, w1)" and "20971520 \<le> n"
    and "upload_large_file_to_folder env self p nm f w1 = (r, w2, t2)"
  shows "upload_file_to_box env self p nm f w =
           (map_sum id (\<lambda>d. ()) r, w2, Ext (Getsize p) None # t2 @
              (case r of Inr (Some u) \<Rightarrow> [Print (Msg_uploaded (uf_name u) (uf_id u))] | _ \<Rightarrow> []))"
  using assms
  by (simp add: upload_file_to_box_def io_defs split: option.splits sum.splits)

lemma router_size_fails:
  assumes "os_path_getsize env p w = (Inl e, w1)"
  shows "upload_file_to_box env self p nm f w = (Inl e, w1, [Ext (Getsize p) (Some e)])"
  using assms
  by (simp add: upload_file_to_box_def io_defs)

lemma router_events_small:
  assumes size: "os_path_getsize env p w = (Inr n, w1)" and lt: "n < 20971520"
    and run: "upload_file_to_box env self p nm f w = (r, w2, t)" and ev: "ev \<in> set t"
  shows "ev = Ext (Getsize p) None
       \<or> ev = Print (Msg_uploading_small p)
       \<or> (\<exists>a b. ev = Print (Msg_uploaded a b))
       \<or> (\<exists>x. ev = Ext (Open p ''rb'') x)
       \<or> (\<exists>x. ev = Ext (Upload_file (UploadFileAttributes
              (case nm of None \<Rightarrow> basename p | Some n \<Rightarrow> if n = [] then basename p else n)
              (UploadFileAttributesParentField f)) (FileObj p ''rb'')) x)
       \<or> (\<exists>x. ev = Ext (Close (FileObj p ''rb'')) x)
       \<or> (\<exists>e. ev = Print (Msg_failed_to_upload p e))"
proof -
  obtain d w3 t2 where h: "upload_small_file_to_folder env self p (Some f) nm w1 = (Inr d, w3, t2)"
    using small_never_raises [of env self p "Some f" nm w1] by blast
  from router_small [OF size lt h] run
  have t: "t = Ext (Getsize p) None # Print (Msg_uploading_small p) # t2 @
              (case d of None \<Rightarrow> [] | Some u \<Rightarrow> [Print (Msg_uploaded (uf_name u) (uf_id u))])"
    by simp
  from ev consider "ev = Ext (Getsize p) None" | "ev = Print (Msg_uploading_small p)"
    | "ev \<in> set t2" | "\<exists>a b. ev = Print (Msg_uploaded a b)"
    unfolding t by (auto split: option.splits)
  then show ?thesis
  proof cases
    case 3
    from small_events [OF h 3] show ?thesis by auto
  qed auto
qed

lemma router_events_large:
  assumes size: "os_path_getsize env p w = (Inr n, w1)" and ge: "20971520 \<le> n"
    and run: "upload_file_to_box env self p nm f w = (r, w2, t)" and ev: "ev \<in> set t"
  shows "(\<exists>x. ev = Ext (Getsize p) x)
       \<or> (\<exists>a b. ev = Print (Msg_uploaded a b))
       \<or> (\<exists>x. ev = Ext (Open p ''rb'') x)
       \<or> (\<exists>x k. ev = Ext (Upload_big_file (FileObj p ''rb'') nm k f) x)
       \<or> (\<exists>x. ev = Ext (Close (FileObj p ''rb'')) x)
       \<or> (\<exists>e. ev = Print (Msg_error_uploading_large nm e))"
proof -
  obtain r2 w3 t2 where h: "upload_large_file_to_folder env self p nm f w1 = (r2, w3, t2)"
    by (metis prod_cases3)
  from router_large [OF size ge h] run
  have t: "t = Ext (Getsize p) None # t2 @
              (case r2 of Inr (Some u) \<Rightarrow> [Print (Msg_uploaded (uf_name u) (uf_id u))] | _ \<Rightarrow> [])"
    by simp
  from ev consider "ev = Ext (Getsize p) None"
    | "ev \<in> set t2" | "\<exists>a b. ev = Print (Msg_uploaded a b)"
    unfolding t by (auto split: option.splits sum.splits)
  then show ?thesis
  proof cases
    case 2
    from large_events [OF h 2] show ?thesis by auto
  qed auto
qed

text \<open>Every event of a run of the router, whatever the size query answers.\<close>

lemma router_events:
  assumes run: "upload_file_to_box env self p nm f w = (r, w2, t)" and ev: "ev \<in> set t"
  shows "(\<exists>x. ev = Ext (Getsize p) x)
       \<or> ev = Print (Msg_uploading_small p)
       \<or> (\<exists>a b. ev = Print (Msg_uploaded a b))
       \<or> (\<exists>x. ev = Ext (Open p ''rb'') x)
       \<or> (\<exists>x. ev = Ext (Upload_file (UploadFileAttributes
              (case nm of None \<Rightarrow> basename p | Some n \<Rightarrow> if n = [] then basename p else n)
              (UploadFileAttributesParentField f)) (FileObj p ''rb'')) x)
       \<or> (\<exists>x k. ev = Ext (Upload_big_file (FileObj p ''rb'') nm k f) x)
       \<or> (\<exists>x. ev = Ext (Close (FileObj p ''rb'')) x)
       \<or> (\<exists>e. ev = Print (Msg_failed_to_upload p e))
       \<or> (\<exists>e. ev = Print (Msg_error_uploading_large nm e))"
proof -
  obtain s w1 where size: "os_path_getsize env p w = (s, w1)"
    by (cases "os_path_getsize env p w")
  show ?thesis
  proof (cases s)
    case (Inl e)
    with router_size_fails [of env p w e w1 self nm f] size run ev show ?thesis
      by auto
  next
    case (Inr n)
    show ?thesis
    proof (cases "n < 20971520")
      case True
      from router_events_small [OF size [unfolded Inr] True run ev] show ?thesis by auto
    next
      case False
      then have "20971520 \<le> n" by simp
      from router_events_large [OF size [unfolded Inr] this run ev] show ?thesis by auto
    qed
  qed
qed

section \<open>Runs in the sample world\<close>

lemma demo_size_empty: "os_path_getsize demo_env ''to_upload/empty.bin'' () = (Inr 0, ())"
  by (simp add: demo_env_def demo_sizes_def)

lemma demo_size_under:
  "os_path_getsize demo_env ''to_upload/clips/under.mp4'' () = (Inr 20971519, ())"
  by (simp add: demo_env_def demo_sizes_def)

lemma demo_size_exact:
  "os_path_getsize demo_env ''to_upload/clips/raw/exact.mp4'' () = (Inr 20971520, ())"
  by (simp add: demo_env_def demo_sizes_def)

lemma demo_size_rejected:
  "os_path_getsize demo_env ''to_upload/clips/rejected.mp4'' () = (Inr 7, ())"
  by (simp add: demo_env_def demo_sizes_def)

lemma demo_size_gone:
  "os_path_getsize demo_env ''to_upload/gone.mp4'' () =
     (Inl (FileNotFoundError ''to_upload/gone.mp4''), ())"
  by (simp add: demo_env_def demo_sizes_def)

lemma demo_run_empty:
  "upload_file_to_box demo_env demo_box ''to_upload/empty.bin'' (Some ''empty.bin'') ''0'' () =
     (Inr (), (),
      [Ext (Getsize ''to_upload/empty.bin'') None,
       Print (Msg_uploading_small ''to_upload/empty.bin''),
       Ext (Open ''to_upload/empty.bin'' ''rb'') None,
       Ext (Upload_file
              (UploadFileAttributes ''empty.bin'' (UploadFileAttributesParentField ''0''))
              (FileObj ''to_upload/empty.bin'' ''rb'')) None,
       Ext (Close (FileObj ''to_upload/empty.bin'' ''rb'')) None,
       Print (Msg_uploaded ''empty.bin'' ''11'')])"
  by (simp add: upload_file_to_box_def upload_small_file_to_folder_def io_defs demo_env_def
      demo_box_def demo_sizes_def Let_def)

lemma demo_run_under:
  "upload_file_to_box demo_env demo_box ''to_upload/clips/under.mp4'' None ''0'' () =
     (Inr (), (),
      [Ext (Getsize ''to_upload/clips/under.mp4'') None,
       Print (Msg_uploading_small ''to_upload/clips/under.mp4''),
       Ext (Open ''to_upload/clips/under.mp4'' ''rb'') None,
       Ext (Upload_file
              (UploadFileAttributes ''under.mp4'' (UploadFileAttributesParentField ''0''))
              (FileObj ''to_upload/clips/under.mp4'' ''rb'')) None,
       Ext (Close (FileObj ''to_upload/clips/under.mp4'' ''rb'')) None,
       Print (Msg_uploaded ''under.mp4'' ''11'')])"
  by (simp add: upload_file_to_box_def upload_small_file_to_folder_def io_defs demo_env_def
      demo_box_def demo_sizes_def Let_def basename_def sep_def)

lemma demo_run_exact:
  "upload_file_to_box demo_env demo_box ''to_upload/clips/raw/exact.mp4'' (Some ''exact.mp4'')
     ''0'' () =
     (Inr (), (),
      [Ext (Getsize ''to_upload/clips/raw/exact.mp4'') None,
       Ext (Getsize ''to_upload/clips/raw/exact.mp4'') None,
       Ext (Open ''to_upload/clips/raw/exact.mp4'' ''rb'') None,
       Ext (Upload_big_file (FileObj ''to_upload/clips/raw/exact.mp4'' ''rb'')
              (Some ''exact.mp4'') 20971520 ''0'') None,
       Ext (Close (FileObj ''to_upload/clips/raw/exact.mp4'' ''rb'')) None,
       Print (Msg_uploaded ''exact.mp4'' ''12'')])"
  by (simp add: upload_file_to_box_def upload_large_file_to_folder_def io_defs demo_env_def
      demo_box_def demo_sizes_def Let_def)


lemma demo_small_rejected:
  "upload_small_file_to_folder demo_env demo_box ''to_upload/clips/rejected.mp4'' (Some ''0'')
     (Some ''rejected.mp4'') () =
     (Inr None, (),
      [Ext (Open ''to_upload/clips/rejected.mp4'' ''rb'') None,
       Ext (Upload_file
              (UploadFileAttributes ''rejected.mp4'' (UploadFileAttributesParentField ''0''))
              (FileObj ''to_upload/clips/rejected.mp4'' ''rb''))
         (Some (BoxAPIError ''item_name_in_use'')),
       Ext (Close (FileObj ''to_upload/clips/rejected.mp4'' ''rb'')) None,
       Print (Msg_failed_to_upload ''to_upload/clips/rejected.mp4''
                (BoxAPIError ''item_name_in_use''))])"
  by (simp add: upload_small_file_to_folder_def io_defs demo_env_def
      demo_box_def demo_sizes_def Let_def)

lemma demo_run_rejected:
  "upload_file_to_box demo_env demo_box ''to_upload/clips/rejected.mp4'' (Some ''rejected.mp4'')
     ''0'' () =
     (Inr (), (),
      [Ext (Getsize ''to_upload/clips/rejected.mp4'') None,
       Print (Msg_uploading_small ''to_upload/clips/rejected.mp4''),
       Ext (Open ''to_upload/clips/rejected.mp4'' ''rb'') None,
       Ext (Upload_file
              (UploadFileAttributes ''rejected.mp4'' (UploadFileAttributesParentField ''0''))
              (FileObj ''to_upload/clips/rejected.mp4'' ''rb''))
         (Some (BoxAPIError ''item_name_in_use'')),
       Ext (Close (FileObj ''to_upload/clips/rejected.mp4'' ''rb'')) None,
       Print (Msg_failed_to_upload ''to_upload/clips/rejected.mp4''
                (BoxAPIError ''item_name_in_use''))])"
  by (simp add: upload_file_to_box_def upload_small_file_to_folder_def io_defs demo_env_def
      demo_box_def demo_sizes_def Let_def)

lemma demo_small_default:
  "upload_small_file_to_folder demo_env demo_box ''to_upload/empty.bin'' None None () =
     (Inr (Some \<lparr>uf_id = ''11'', uf_name = ''empty.bin''\<rparr>), (),
      [Ext (Open ''to_upload/empty.bin'' ''rb'') None,
       Ext (Upload_file
              (UploadFileAttributes ''empty.bin'' (UploadFileAttributesParentField ''0''))
              (FileObj ''to_upload/empty.bin'' ''rb'')) None,
       Ext (Close (FileObj ''to_upload/empty.bin'' ''rb'')) None])"
  by (simp add: upload_small_file_to_folder_def io_defs demo_env_def
      demo_box_def demo_sizes_def Let_def basename_def sep_def)

section \<open>Claims about the router and the helpers\<close>

text \<open>
  C1. Once the size query has answered \<open>n\<close>, the router runs the single-request helper when
  \<open>n < 20971520\<close> and the chunked helper when \<open>20971520 \<le> n\<close>, each from the world the size
  query left, and the run holds no upload call of the other kind.
\<close>

theorem upload_file_to_box_threshold:
  assumes "os_path_getsize env p w = (Inr n, w1)"
  shows "(n < 20971520 \<longrightarrow>
            (\<exists>d w2 t2.
               upload_small_file_to_folder env self p (Some f) nm w1 = (Inr d, w2, t2) \<and>
               upload_file_to_box env self p nm f w =
                 (Inr (), w2, Ext (Getsize p) None # Print (Msg_uploading_small p) # t2 @
                    (case d of None \<Rightarrow> []
                     | Some u \<Rightarrow> [Print (Msg_uploaded (uf_name u) (uf_id u))])) \<and>
               Some Chunked \<notin>
                 route_of_event ` set (snd (snd (upload_file_to_box env self p nm f w)))))
       \<and> (20971520 \<le> n \<longrightarrow>
            (\<exists>r w2 t2.
               upload_large_file_to_folder env self p nm f w1 = (r, w2, t2) \<and>
               upload_file_to_box env self p nm f w =
                 (map_sum id (\<lambda>d. ()) r, w2, Ext (Getsize p) None # t2 @
                    (case r of Inr (Some u) \<Rightarrow> [Print (Msg_uploaded (uf_name u) (uf_id u))]
                     | _ \<Rightarrow> [])) \<and>
               Print (Msg_uploading_small p) \<notin>
                 set (snd (snd (upload_file_to_box env self p nm f w))) \<and>
               Some Single_request \<notin>
                 route_of_event ` set (snd (snd (upload_file_to_box env self p nm f w)))))"
proof (intro conjI impI)
  define t where "t = snd (snd (upload_file_to_box env self p nm f w))"
  assume lt: "n < 20971520"
  obtain d w2 t2 where h: "upload_small_file_to_folder env self p (Some f) nm w1 = (Inr d, w2, t2)"
    using small_never_raises [of env self p "Some f" nm w1] by blast
  note run = router_small [OF assms lt h]
  have run_t: "upload_file_to_box env self p nm f w = (Inr (), w2, t)"
    by (simp add: run t_def)
  have "route_of_event ev \<noteq> Some Chunked" if "ev \<in> set t" for ev
    using router_events_small [OF assms lt run_t that] by auto
  then have "Some Chunked \<notin> route_of_event ` set t"
    by force
  with h run show "\<exists>d w2 t2.
       upload_small_file_to_folder env self p (Some f) nm w1 = (Inr d, w2, t2) \<and>
       upload_file_to_box env self p nm f w =
         (Inr (), w2, Ext (Getsize p) None # Print (Msg_uploading_small p) # t2 @
            (case d of None \<Rightarrow> []
             | Some u \<Rightarrow> [Print (Msg_uploaded (uf_name u) (uf_id u))])) \<and>
       Some Chunked \<notin>
         route_of_event ` set (snd (snd (upload_file_to_box env self p nm f w)))"
    unfolding t_def by blast
next
  define t where "t = snd (snd (upload_file_to_box env self p nm f w))"
  assume ge: "20971520 \<le> n"
  obtain r w2 t2 where h: "upload_large_file_to_folder env self p nm f w1 = (r, w2, t2)"
    by (metis prod_cases3)
  note run = router_large [OF assms ge h]
  have run_t: "upload_file_to_box env self p nm f w = (map_sum id (\<lambda>d. ()) r, w2, t)"
    by (simp add: run t_def)
  have ev: "route_of_event ev \<noteq> Some Single_request \<and> ev \<noteq> Print (Msg_uploading_small p)"
    if "ev \<in> set t" for ev
    using router_events_large [OF assms ge run_t that] by auto
  then have "Some Single_request \<notin> route_of_event ` set t"
    by force
  moreover from ev have "Print (Msg_uploading_small p) \<notin> set t"
    by blast
  ultimately show "\<exists>r w2 t2.
       upload_large_file_to_folder env self p nm f w1 = (r, w2, t2) \<and>
       upload_file_to_box env self p nm f w =
         (map_sum id (\<lambda>d. ()) r, w2, Ext (Getsize p) None # t2 @
            (case r of Inr (Some u) \<Rightarrow> [Print (Msg_uploaded (uf_name u) (uf_id u))]
             | _ \<Rightarrow> [])) \<and>
       Print (Msg_uploading_small p) \<notin>
         set (snd (snd (upload_file_to_box env self p nm f w))) \<and>
       Some Single_request \<notin>
         route_of_event ` set (snd (snd (upload_file_to_box env self p nm f w)))"
    using h run unfolding t_def by blast
qed

text \<open>
  In the sample world a file of 20971520 bytes reaches the chunked operation only, and
  files of 20971519 bytes and of no bytes reach the single-request operation only.
\<close>

theorem upload_file_to_box_threshold_witness:
  "os_path_getsize demo_env ''to_upload/clips/raw/exact.mp4'' () = (Inr 20971520, ())
   \<and> route_of_event ` set (snd (snd (upload_file_to_box demo_env demo_box
         ''to_upload/clips/raw/exact.mp4'' (Some ''exact.mp4'') ''0'' ()))) = {None, Some Chunked}
   \<and> os_path_getsize demo_env ''to_upload/clips/under.mp4'' () = (Inr 20971519, ())
   \<and> route_of_event ` set (snd (snd (upload_file_to_box demo_env demo_box
         ''to_upload/clips/under.mp4'' None ''0'' ()))) = {None, Some Single_request}
   \<and> os_path_getsize demo_env ''to_upload/empty.bin'' () = (Inr 0, ())
   \<and> route_of_event ` set (snd (snd (upload_file_to_box demo_env demo_box
         ''to_upload/empty.bin'' (Some ''empty.bin'') ''0'' ()))) = {None, Some Single_request}"
  using upload_file_to_box_threshold [OF demo_size_exact, of demo_box "''0''" "Some ''exact.mp4''"]
    upload_file_to_box_threshold [OF demo_size_under, of demo_box "''0''" None]
    upload_file_to_box_threshold [OF demo_size_empty, of demo_box "''0''" "Some ''empty.bin''"]
  by (simp add: demo_size_exact demo_size_under demo_size_empty demo_run_exact demo_run_under
      demo_run_empty insert_commute)

text \<open>
  C9. When the size query raises, the router raises the same exception: the only event of
  the run is the failed query, so nothing is printed, no helper is entered and no sentinel
  is returned.
\<close>

theorem upload_file_to_box_size_failure:
  assumes "os_path_getsize env p w = (Inl e, w1)"
  shows "upload_file_to_box env self p nm f w = (Inl e, w1, [Ext (Getsize p) (Some e)])"
  using assms by (rule router_size_fails)

theorem upload_file_to_box_size_failure_witness:
  "os_path_getsize demo_env ''to_upload/gone.mp4'' () =
     (Inl (FileNotFoundError ''to_upload/gone.mp4''), ())
   \<and> upload_file_to_box demo_env demo_box ''to_upload/gone.mp4'' (Some ''gone.mp4'') ''0'' () =
       (Inl (FileNotFoundError ''to_upload/gone.mp4''), (),
        [Ext (Getsize ''to_upload/gone.mp4'')
           (Some (FileNotFoundError ''to_upload/gone.mp4''))])"
  using upload_file_to_box_size_failure [OF demo_size_gone, of demo_box "Some ''gone.mp4''" "''0''"]
  by (simp add: demo_size_gone)

text \<open>
  C2, as the code has it. When the helper the router selects returns the sentinel, the
  router returns normally and prints nothing after the helper: the test
  \<^verbatim>\<open>if uploaded_file:\<close> keeps it from reading the name and identifier of the sentinel.
\<close>

theorem upload_file_to_box_sentinel:
  assumes "os_path_getsize env p w = (Inr n, w1)"
    and "(if n < 20 * 1024 * 1024
          then upload_small_file_to_folder env self p (Some f) nm w1
          else upload_large_file_to_folder env self p nm f w1) = (Inr None, w2, t2)"
  shows "upload_file_to_box env self p nm f w =
           (Inr (), w2,
            Ext (Getsize p) None #
            (if n < 20 * 1024 * 1024 then [Print (Msg_uploading_small p)] else []) @ t2)"
  using assms
  by (simp add: upload_file_to_box_def io_defs split: if_splits)

theorem upload_file_to_box_sentinel_witness:
  "upload_file_to_box demo_env demo_box ''to_upload/clips/rejected.mp4'' (Some ''rejected.mp4'')
     ''0'' () =
     (Inr (), (),
      [Ext (Getsize ''to_upload/clips/rejected.mp4'') None,
       Print (Msg_uploading_small ''to_upload/clips/rejected.mp4''),
       Ext (Open ''to_upload/clips/rejected.mp4'' ''rb'') None,
       Ext (Upload_file
              (UploadFileAttributes ''rejected.mp4'' (UploadFileAttributesParentField ''0''))
              (FileObj ''to_upload/clips/rejected.mp4'' ''rb''))
         (Some (BoxAPIError ''item_name_in_use'')),
       Ext (Close (FileObj ''to_upload/clips/rejected.mp4'' ''rb'')) None,
       Print (Msg_failed_to_upload ''to_upload/clips/rejected.mp4''
                (BoxAPIError ''item_name_in_use''))])"
proof -
  have helper:
    "(if (7::int) < 20 * 1024 * 1024
      then upload_small_file_to_folder demo_env demo_box ''to_upload/clips/rejected.mp4''
             (Some ''0'') (Some ''rejected.mp4'') ()
      else upload_large_file_to_folder demo_env demo_box ''to_upload/clips/rejected.mp4''
             (Some ''rejected.mp4'') ''0'' ()) =
     (Inr None, (),
      [Ext (Open ''to_upload/clips/rejected.mp4'' ''rb'') None,
       Ext (Upload_file
              (UploadFileAttributes ''rejected.mp4'' (UploadFileAttributesParentField ''0''))
              (FileObj ''to_upload/clips/rejected.mp4'' ''rb''))
         (Some (BoxAPIError ''item_name_in_use'')),
       Ext (Close (FileObj ''to_upload/clips/rejected.mp4'' ''rb'')) None,
       Print (Msg_failed_to_upload ''to_upload/clips/rejected.mp4''
                (BoxAPIError ''item_name_in_use''))])"
    by (simp add: demo_small_rejected)
  from upload_file_to_box_sentinel [OF demo_size_rejected helper] show ?thesis
    by simp
qed

text \<open>
  C2, as the claim states it, fails: in the sample world the single-request helper returns
  the sentinel for the rejected file, and the router returns normally instead of raising.
\<close>

theorem upload_file_to_box_sentinel_counterexample:
  "fst (upload_small_file_to_folder demo_env demo_box ''to_upload/clips/rejected.mp4''
          (Some ''0'') (Some ''rejected.mp4'') ()) = Inr None
   \<and> fst (upload_file_to_box demo_env demo_box ''to_upload/clips/rejected.mp4''
            (Some ''rejected.mp4'') ''0'' ()) = Inr ()"
  by (simp add: demo_small_rejected demo_run_rejected)

text \<open>
  C5, at the input where the code departs from it. The path does not exist: the chunked
  helper raises out of its size query, which precedes its \<^verbatim>\<open>try\<close>, and prints nothing,
  while the single-request helper given the same path logs the error and returns the
  sentinel.
\<close>

theorem upload_large_file_to_folder_raises:
  "upload_large_file_to_folder demo_env demo_box ''to_upload/gone.mp4'' (Some ''gone.mp4'')
     ''0'' () =
     (Inl (FileNotFoundError ''to_upload/gone.mp4''), (),
      [Ext (Getsize ''to_upload/gone.mp4'') (Some (FileNotFoundError ''to_upload/gone.mp4''))])
   \<and> upload_small_file_to_folder demo_env demo_box ''to_upload/gone.mp4'' (Some ''0'')
       (Some ''gone.mp4'') () =
     (Inr None, (),
      [Ext (Open ''to_upload/gone.mp4'' ''rb'') (Some (FileNotFoundError ''to_upload/gone.mp4'')),
       Print (Msg_failed_to_upload ''to_upload/gone.mp4''
                (FileNotFoundError ''to_upload/gone.mp4''))])"
  by (simp add: upload_large_file_to_folder_def upload_small_file_to_folder_def io_defs
      demo_env_def demo_sizes_def Let_def)


section \<open>Claims about the constructor, the default folder and the local files\<close>

lemma Box_init_fields:
  assumes "Box_init env a b c w = (Inr self, w1, t)"
  shows "client_id self = py_or a (BOX_CLIENT_ID env)"
    and "client_secret self = py_or b (BOX_CLIENT_SECRET env)"
    and "enterprise_id self = py_or c (BOX_ENTERPRISE_ID env)"
    and "videos_folder_box_id self = ''303832684570''"
    and "box_road_health_folder_id self = ''309237796489''"
    and "box_metadata_template_key self = ''folderWatcherMetadata''"
  using assms
  by (auto simp: Box_init_def authenticate_def io_defs Let_def
      split: prod.splits sum.splits)

text \<open>
  C3, as the code has it. Each credential of a constructed object is the constructor's
  argument when that argument is neither \<^verbatim>\<open>None\<close> nor empty, and otherwise the value of
  the environment variable, which is \<^verbatim>\<open>None\<close> when the variable is not set: the
  argument takes precedence over the environment.
\<close>

theorem Box_init_credentials:
  assumes "Box_init env a b c w = (Inr self, w1, t)"
  shows "client_id self = (if a = None \<or> a = Some [] then os_getenv env ''BOX_CLIENT_ID'' else a)
       \<and> client_secret self =
           (if b = None \<or> b = Some [] then os_getenv env ''BOX_CLIENT_SECRET'' else b)
       \<and> enterprise_id self =
           (if c = None \<or> c = Some [] then os_getenv env ''BOX_ENTERPRISE_ID'' else c)"
  using Box_init_fields(1-3) [OF assms]
  by (auto simp: py_or_def truthy_def BOX_CLIENT_ID_def BOX_CLIENT_SECRET_def
      BOX_ENTERPRISE_ID_def split: option.splits)

lemma demo_init_args:
  "Box_init demo_env (Some ''arg-id'') (Some []) None () =
     (Inr (demo_box\<lparr>client_id := Some ''arg-id'',
            client := Some (BoxClient (BoxCCGAuth
                        (CCGConfig (Some ''arg-id'') (Some ''env-secret'') None))),
            auth := Some (BoxCCGAuth (CCGConfig (Some ''arg-id'') (Some ''env-secret'') None))\<rparr>),
      (),
      [Ext (New_BoxCCGAuth (CCGConfig (Some ''arg-id'') (Some ''env-secret'') None)) None,
       Ext (New_BoxClient (BoxCCGAuth (CCGConfig (Some ''arg-id'') (Some ''env-secret'') None)))
         None,
       Print Msg_authenticated,
       Print (Msg_client (Some (BoxClient (BoxCCGAuth
                (CCGConfig (Some ''arg-id'') (Some ''env-secret'') None)))))])"
  by (simp add: Box_init_def authenticate_def io_defs demo_env_def demo_box_def py_or_def
      truthy_def BOX_CLIENT_ID_def BOX_CLIENT_SECRET_def BOX_ENTERPRISE_ID_def Let_def)

lemma demo_getenv:
  "os_getenv demo_env ''BOX_CLIENT_ID'' = Some ''env-id''"
  "os_getenv demo_env ''BOX_CLIENT_SECRET'' = Some ''env-secret''"
  "os_getenv demo_env ''BOX_ENTERPRISE_ID'' = None"
  by (simp_all add: demo_env_def)

theorem Box_init_credentials_witness:
  "client_id (projr (fst (Box_init demo_env (Some ''arg-id'') (Some []) None ())))
     = Some ''arg-id''
   \<and> client_secret (projr (fst (Box_init demo_env (Some ''arg-id'') (Some []) None ())))
     = Some ''env-secret''
   \<and> enterprise_id (projr (fst (Box_init demo_env (Some ''arg-id'') (Some []) None ())))
     = None"
  using Box_init_credentials [OF demo_init_args]
  by (simp add: demo_init_args demo_getenv)

text \<open>
  C3, as the claim states it, fails: in the sample world the variable
  \<^verbatim>\<open>BOX_CLIENT_ID\<close> is set to \<^verbatim>\<open>env-id\<close>, and the object built with the argument
  \<^verbatim>\<open>arg-id\<close> has the argument as its client id, not the variable's value.
\<close>

theorem Box_init_credentials_counterexample:
  "os_getenv demo_env ''BOX_CLIENT_ID'' = Some ''env-id''
   \<and> \<not> isl (fst (Box_init demo_env (Some ''arg-id'') (Some []) None ()))
   \<and> client_id (projr (fst (Box_init demo_env (Some ''arg-id'') (Some []) None ())))
       \<noteq> Some ''env-id''"
  by (simp add: demo_init_args demo_getenv)

text \<open>
  C10. An upload call made by \<^verbatim>\<open>upload_small_file_to_folder\<close> when the folder argument is
  left out names the folder \<^verbatim>\<open>"0"\<close>, which is none of the identifiers the constructor
  stores in the object.
\<close>

theorem upload_small_file_default_folder:
  assumes "Box_init env a b c w0 = (Inr self, w0', t0)"
    and "upload_small_file_to_folder env self p None nm w = (r, w1, t)"
    and "ev \<in> set t"
    and "route_of_event ev = Some Single_request"
  shows "parent_folder ev = Some ''0''
       \<and> ''0'' \<noteq> videos_folder_box_id self
       \<and> ''0'' \<noteq> box_road_health_folder_id self
       \<and> ''0'' \<noteq> box_metadata_template_key self"
  using small_events [OF assms(2,3)] assms(4) Box_init_fields(4-6) [OF assms(1)]
  by auto

theorem upload_small_file_default_folder_witness:
  "Ext (Upload_file
          (UploadFileAttributes ''empty.bin'' (UploadFileAttributesParentField ''0''))
          (FileObj ''to_upload/empty.bin'' ''rb'')) None
     \<in> set (snd (snd (upload_small_file_to_folder demo_env demo_box ''to_upload/empty.bin''
                         None None ())))
   \<and> ''0'' \<noteq> videos_folder_box_id demo_box
   \<and> ''0'' \<noteq> box_road_health_folder_id demo_box
   \<and> ''0'' \<noteq> box_metadata_template_key demo_box"
proof -
  let ?ev = "Ext (Upload_file
          (UploadFileAttributes ''empty.bin'' (UploadFileAttributesParentField ''0''))
          (FileObj ''to_upload/empty.bin'' ''rb'')) None"
  have ev: "?ev \<in> set [Ext (Open ''to_upload/empty.bin'' ''rb'') None, ?ev,
                       Ext (Close (FileObj ''to_upload/empty.bin'' ''rb'')) None]"
    by simp
  have route: "route_of_event ?ev = Some Single_request"
    by simp
  from upload_small_file_default_folder [OF demo_init demo_small_default ev route] ev
  show ?thesis
    by (simp add: demo_small_default)
qed

lemma triple_eq: "x = (fst x, fst (snd x), snd (snd x))"
  by simp

text \<open>
  C8. No event of a run of the router or of either helper changes the local file system,
  and every file such a run opens is the source file, opened in mode \<^verbatim>\<open>rb\<close>.
\<close>

theorem uploads_leave_local_files:
  assumes "ev \<in> set (snd (snd (upload_file_to_box env self p nm f w)))
             \<union> set (snd (snd (upload_small_file_to_folder env self p fo nm w)))
             \<union> set (snd (snd (upload_large_file_to_folder env self p nm f w)))"
  shows "\<not> mutates_local_fs ev \<and> (\<forall>q m x. ev = Ext (Open q m) x \<longrightarrow> q = p \<and> m = ''rb'')"
proof -
  from assms consider
      (router) "ev \<in> set (snd (snd (upload_file_to_box env self p nm f w)))"
    | (small) "ev \<in> set (snd (snd (upload_small_file_to_folder env self p fo nm w)))"
    | (large) "ev \<in> set (snd (snd (upload_large_file_to_folder env self p nm f w)))"
    by blast
  then show ?thesis
  proof cases
    case router
    from router_events [OF triple_eq router]
    show ?thesis by auto
  next
    case small
    from small_events [OF triple_eq small]
    show ?thesis by auto
  next
    case large
    from large_events [OF triple_eq large]
    show ?thesis by auto
  qed
qed

theorem uploads_leave_local_files_witness:
  "Ext (Open ''to_upload/empty.bin'' ''rb'') None
     \<in> set (snd (snd (upload_file_to_box demo_env demo_box ''to_upload/empty.bin''
                         (Some ''empty.bin'') ''0'' ())))
   \<and> \<not> mutates_local_fs (Ext (Open ''to_upload/empty.bin'' ''rb'') None)"
proof -
  have ev: "Ext (Open ''to_upload/empty.bin'' ''rb'') None
     \<in> set (snd (snd (upload_file_to_box demo_env demo_box ''to_upload/empty.bin''
                         (Some ''empty.bin'') ''0'' ())))"
    by (simp add: demo_run_empty)
  then have "Ext (Open ''to_upload/empty.bin'' ''rb'') None
     \<in> set (snd (snd (upload_file_to_box demo_env demo_box ''to_upload/empty.bin''
                         (Some ''empty.bin'') ''0'' ())))
       \<union> set (snd (snd (upload_small_file_to_folder demo_env demo_box ''to_upload/empty.bin''
                         None (Some ''empty.bin'') ())))
       \<union> set (snd (snd (upload_large_file_to_folder demo_env demo_box ''to_upload/empty.bin''
                         (Some ''empty.bin'') ''0'' ())))"
    by blast
  from uploads_leave_local_files [OF this] ev show ?thesis
    by blast
qed


section \<open>The bulk traversal\<close>




















section \<open>The remote name\<close>







section \<open>Properties of the capture-acquisition flow\<close>

lemma downloaded_append: "downloaded (s @ t) = downloaded s @ downloaded t"
  by (induction s rule: downloaded.induct) simp_all

lemma failures_append: "failures (s @ t) = failures s @ failures t"
  by (induction s rule: failures.induct) simp_all

lemma deletes_append: "deletes (s @ t) = deletes s @ deletes t"
  by (induction s rule: deletes.induct) simp_all

lemma deletes_none: "(\<And>x. Ext Delete_all x \<notin> set t) \<Longrightarrow> deletes t = []"
  by (induction t rule: deletes.induct) auto

lemma failures_set: "(c, e) \<in> set (failures t) \<longleftrightarrow> Ext c (Some e) \<in> set t"
  by (induction t rule: failures.induct) auto

lemma deletes_set: "ev \<in> set (deletes t) \<longleftrightarrow> (\<exists>x. ev = Ext Delete_all x) \<and> ev \<in> set t"
  by (induction t rule: deletes.induct) auto

text \<open>A loop over pieces that each satisfy \<open>download_run\<close> satisfies it as a whole.\<close>

lemma for_each_download_run:
  assumes "\<And>x w r w1 t. x \<in> set xs \<Longrightarrow> body x w = (r, w1, t) \<Longrightarrow> download_run r t (g x)"
    and "for_each body xs w = (r, w1, t)"
  shows "download_run r t (concat (map g xs))"
  using assms
proof (induction xs arbitrary: w r w1 t)
  case Nil
  then show ?case
    by (auto simp: io_return_def download_run_def)
next
  case (Cons x xs)
  obtain r1 w' t1 where b: "body x w = (r1, w', t1)"
    by (metis prod_cases3)
  from Cons.prems(1) [OF _ b] have one: "download_run r1 t1 (g x)"
    by simp
  show ?case
  proof (cases r1)
    case (Inl e)
    with Cons.prems(2) b have "r = Inl e" "t = t1"
      by (simp_all add: io_bind_def)
    with one Inl show ?thesis
      by (simp add: download_run_def)
  next
    case (Inr u)
    obtain r2 w2 t2 where rest: "for_each body xs w' = (r2, w2, t2)"
      by (metis prod_cases3)
    from Cons.IH [OF _ rest] Cons.prems(1) have more: "download_run r2 t2 (concat (map g xs))"
      by simp
    from Cons.prems(2) b Inr rest have "r = r2" "t = t1 @ t2"
      by (simp_all add: io_bind_def)
    with one more Inr show ?thesis
      by (auto simp: download_run_def downloaded_append failures_append split: sum.splits)
  qed
qed

lemma download_each_run:
  assumes "download_each env g media_list w = (r, w1, t)"
  shows "download_run r t (manifest_files media_list)"
proof -
  let ?item = "\<lambda>fs.
     let path = filename fs;
         local_name = ''to_upload/'' @ last (str_split sep path) in
     io_bind (print (Msg_downloading path local_name)) (\<lambda>u.
     io_bind (ext (Download_file path local_name) (download_file env g path local_name)) (\<lambda>u.
     print (Msg_downloaded local_name)))"
  let ?pair = "\<lambda>fs. (filename fs, ''to_upload/'' @ last (str_split sep (filename fs)))"
  have item: "download_run r' t' [?pair fs]" if run: "?item fs w' = (r', w'', t')"
    for fs r' t' and w' w'' :: 'a
  proof -
    let ?local = "''to_upload/'' @ last (str_split sep (filename fs))"
    obtain d w2 where dl: "download_file env g (filename fs) ?local w' = (d, w2)"
      by (cases "download_file env g (filename fs) ?local w'")
    show ?thesis
    proof (cases d)
      case (Inl e)
      with dl have "?item fs w' =
          (Inl e, w2, [Print (Msg_downloading (filename fs) ?local),
                       Ext (Download_file (filename fs) ?local) (Some e)])"
        by (simp add: io_defs Let_def)
      with run show ?thesis
        by (auto simp: download_run_def)
    next
      case (Inr u)
      with dl have "?item fs w' =
          (Inr (), w2, [Print (Msg_downloading (filename fs) ?local),
                        Ext (Download_file (filename fs) ?local) None,
                        Print (Msg_downloaded ?local)])"
        by (simp add: io_defs Let_def)
      with run show ?thesis
        by (auto simp: download_run_def)
    qed
  qed
  have group: "download_run r' t' (map ?pair (file_system gr))"
    if "for_each ?item (file_system gr) w' = (r', w'', t')" for gr r' t' and w' w'' :: 'a
  proof -
    have "download_run r' t' (concat (map (\<lambda>fs. [?pair fs]) (file_system gr)))"
    proof (rule for_each_download_run [where body = ?item])
      show "for_each ?item (file_system gr) w' = (r', w'', t')"
        by (fact that)
    next
      fix fs r2 t2 and v v' :: 'a
      assume "?item fs v = (r2, v', t2)"
      then show "download_run r2 t2 [?pair fs]"
        by (rule item)
    qed
    moreover have "concat (map (\<lambda>fs. [?pair fs]) fss) = map ?pair fss" for fss
      by (induction fss) simp_all
    ultimately show ?thesis
      by simp
  qed
  from assms have all: "for_each (\<lambda>gr. for_each ?item (file_system gr)) media_list w = (r, w1, t)"
    by (simp add: download_each_def)
  have "download_run r t (concat (map (\<lambda>gr. map ?pair (file_system gr)) media_list))"
  proof (rule for_each_download_run [where body = "\<lambda>gr. for_each ?item (file_system gr)"])
    show "for_each (\<lambda>gr. for_each ?item (file_system gr)) media_list w = (r, w1, t)"
      by (fact all)
  next
    fix gr r2 t2 and v v' :: 'a
    assume "for_each ?item (file_system gr) v = (r2, v', t2)"
    then show "download_run r2 t2 (map ?pair (file_system gr))"
      by (rule group)
  qed
  then show ?thesis
    by (simp add: manifest_files_def map_concat comp_def)
qed

text \<open>The four ways a run of \<^verbatim>\<open>main\<close> can go, with the events of each.\<close>

lemma main_enter_raises:
  assumes "gopro_aenter env w = (Inl e, w1)"
  shows "main env w = (Inl e, w1, [Ext GoPro_enter (Some e)])"
  using assms by (simp add: main_def io_defs)

lemma main_list_raises:
  assumes "gopro_aenter env w = (Inr g, w2)"
    and "get_media_list env g w2 = (Inl e, w3)"
    and "gopro_aexit env g w3 = (x, w4)"
  shows "main env w =
           (Inl (case x of Inl e' \<Rightarrow> e' | Inr u \<Rightarrow> e), w4,
            [Ext GoPro_enter None, Print Msg_connected, Ext Get_media_list (Some e),
             Ext GoPro_exit (outcome x)])"
  using assms by (simp add: main_def io_defs split: sum.splits)

lemma main_download_raises:
  assumes "gopro_aenter env w = (Inr g, w2)"
    and "get_media_list env g w2 = (Inr media, w3)"
    and "download_each env g media w3 = (Inl e, w4, td)"
    and "gopro_aexit env g w4 = (x, w5)"
  shows "main env w =
           (Inl (case x of Inl e' \<Rightarrow> e' | Inr u \<Rightarrow> e), w5,
            [Ext GoPro_enter None, Print Msg_connected, Ext Get_media_list None] @ td @
            [Ext GoPro_exit (outcome x)])"
  using assms by (simp add: main_def io_defs split: sum.splits)

lemma main_deletes:
  assumes "gopro_aenter env w = (Inr g, w2)"
    and "get_media_list env g w2 = (Inr media, w3)"
    and "download_each env g media w3 = (Inr (), w4, td)"
    and "delete_all env g w4 = (d, w5)"
    and "gopro_aexit env g w5 = (x, w6)"
  shows "main env w =
           (case x of Inl e' \<Rightarrow> Inl e' | Inr u \<Rightarrow> d, w6,
            ([Ext GoPro_enter None, Print Msg_connected, Ext Get_media_list None] @ td @
             [Print Msg_deleting]) @ Ext Delete_all (outcome d) #
            (case d of Inl e \<Rightarrow> [] | Inr u \<Rightarrow> [Print Msg_all_deleted]) @
            [Ext GoPro_exit (outcome x)])"
  using assms by (simp add: main_def io_defs split: sum.splits)

text \<open>What \<open>download_run\<close> says about single events.\<close>

lemma download_run_events:
  assumes "download_run r t done" and "Ext c x \<in> set t"
  shows "\<exists>p l. c = Download_file p l"
proof -
  from assms(1) have "\<forall>ev \<in> set t.
      (\<exists>m. ev = Print m) \<or> (\<exists>p l y. ev = Ext (Download_file p l) y)"
    by (simp add: download_run_def)
  with assms(2) have "(\<exists>m. Ext c x = Print m) \<or> (\<exists>p l y. Ext c x = Ext (Download_file p l) y)"
    by blast
  then show ?thesis
    by auto
qed

lemma download_run_deletes:
  assumes "download_run r t done"
  shows "deletes t = []"
proof -
  have "Ext Delete_all x \<notin> set t" for x
    using download_run_events [OF assms, of Delete_all x] by auto
  then show ?thesis
    by (rule deletes_none)
qed

lemma download_run_returned:
  assumes "download_run (Inr u) t done"
  shows "downloaded t = done" and "Ext c (Some e) \<notin> set t"
proof -
  from assms show "downloaded t = done"
    by (simp add: download_run_def)
  from assms have "failures t = []"
    by (simp add: download_run_def)
  then have "(c, e) \<notin> set (failures t)"
    by simp
  then show "Ext c (Some e) \<notin> set t"
    by (simp add: failures_set)
qed

lemma download_run_raised:
  assumes "download_run (Inl e) t done" and "Ext c (Some e') \<in> set t"
  shows "e' = e"
proof -
  from assms(1) obtain p l where "failures t = [(Download_file p l, e)]"
    by (auto simp: download_run_def)
  moreover from assms(2) have "(c, e') \<in> set (failures t)"
    by (simp add: failures_set)
  ultimately show ?thesis
    by simp
qed


text \<open>
  C6. In a run of \<^verbatim>\<open>main\<close> the bulk-delete command is issued at most once. When it is
  issued, the manifest was retrieved, every file of every group of the manifest has been
  downloaded before it, in the manifest's order, no download has raised, and none follows.
  When the manifest retrieval or a download raises, no bulk-delete command is issued and
  the run raises: that same exception, unless the release of the session raises another.
\<close>

theorem main_delete_all_after_downloads:
  assumes run: "main env w = (r, w1, t)"
  shows "length (deletes t) \<le> 1
       \<and> (\<forall>x. Ext Delete_all x \<in> set t \<longrightarrow>
            (\<exists>g w2 media w3 pre post.
               gopro_aenter env w = (Inr g, w2)
               \<and> get_media_list env g w2 = (Inr media, w3)
               \<and> t = pre @ Ext Delete_all x # post
               \<and> downloaded pre = manifest_files media
               \<and> downloaded post = []
               \<and> (\<forall>p l e. Ext (Download_file p l) (Some e) \<notin> set t)))
       \<and> (\<forall>c e. Ext c (Some e) \<in> set t \<and> (c = Get_media_list \<or> (\<exists>p l. c = Download_file p l))
            \<longrightarrow> deletes t = []
                \<and> (\<exists>e'. r = Inl e' \<and> (Ext GoPro_exit None \<in> set t \<longrightarrow> e' = e)))"
proof -
  obtain a w2 where enter: "gopro_aenter env w = (a, w2)"
    by (cases "gopro_aenter env w")
  show ?thesis
  proof (cases a)
    case (Inl e)
    from main_enter_raises [OF enter [unfolded Inl]] run
    have "t = [Ext GoPro_enter (Some e)]"
      by simp
    then show ?thesis
      by auto
  next
    case g: (Inr g)
    note enter = enter [unfolded g]
    obtain b w3 where list: "get_media_list env g w2 = (b, w3)"
      by (cases "get_media_list env g w2")
    show ?thesis
    proof (cases b)
      case (Inl e)
      obtain x w4 where exit: "gopro_aexit env g w3 = (x, w4)"
        by (cases "gopro_aexit env g w3")
      from main_list_raises [OF enter list [unfolded Inl] exit] run
      have t: "t = [Ext GoPro_enter None, Print Msg_connected, Ext Get_media_list (Some e),
                    Ext GoPro_exit (outcome x)]"
        and r: "r = Inl (case x of Inl e' \<Rightarrow> e' | Inr u \<Rightarrow> e)"
        by simp_all
      show ?thesis
        unfolding t r by (auto simp: outcome_def split: sum.splits)
    next
      case media: (Inr media)
      note list = list [unfolded media]
      obtain c w4 td where dl: "download_each env g media w3 = (c, w4, td)"
        by (metis prod_cases3)
      note dr = download_each_run [OF dl]
      have td_del: "deletes td = []"
        by (rule download_run_deletes [OF dr])
      have td_ev: "\<exists>p l. k = Download_file p l" if "Ext k y \<in> set td" for k y
        by (rule download_run_events [OF dr that])
      show ?thesis
      proof (cases c)
        case (Inl e)
        obtain x w5 where exit: "gopro_aexit env g w4 = (x, w5)"
          by (cases "gopro_aexit env g w4")
        from main_download_raises [OF enter list dl [unfolded Inl] exit] run
        have t: "t = [Ext GoPro_enter None, Print Msg_connected, Ext Get_media_list None] @ td @
                     [Ext GoPro_exit (outcome x)]"
          and r: "r = Inl (case x of Inl e' \<Rightarrow> e' | Inr u \<Rightarrow> e)"
          by simp_all
        have same: "e' = e" if "Ext k (Some e') \<in> set td" for k e'
          by (rule download_run_raised [OF dr [unfolded Inl] that])
        have del: "deletes t = []"
          by (simp add: t deletes_append td_del)
        have no_del: "Ext Delete_all y \<notin> set t" for y
          using td_ev [of Delete_all y] by (auto simp: t)
        have abort: "\<exists>e''. r = Inl e'' \<and> (Ext GoPro_exit None \<in> set t \<longrightarrow> e'' = e')"
          if "Ext k (Some e') \<in> set t" and "k = Get_media_list \<or> (\<exists>p l. k = Download_file p l)"
          for k e'
        proof -
          from that have "Ext k (Some e') \<in> set td"
            by (auto simp: t)
          then have "e' = e"
            by (rule same)
          moreover have "x = Inr ()" if "Ext GoPro_exit None \<in> set t"
            using that td_ev [of GoPro_exit None]
            by (cases x) (auto simp: t outcome_def)
          ultimately show ?thesis
            by (auto simp: r)
        qed
        from del no_del abort show ?thesis
          by (simp (no_asm_simp)) blast
      next
        case (Inr u)
        obtain d w5 where delete: "delete_all env g w4 = (d, w5)"
          by (cases "delete_all env g w4")
        obtain x w6 where exit: "gopro_aexit env g w5 = (x, w6)"
          by (cases "gopro_aexit env g w5")
        let ?pre = "[Ext GoPro_enter None, Print Msg_connected, Ext Get_media_list None] @ td @
                    [Print Msg_deleting]"
        let ?post = "(case d of Inl e \<Rightarrow> [] | Inr u \<Rightarrow> [Print Msg_all_deleted]) @
                     [Ext GoPro_exit (outcome x)]"
        from main_deletes [OF enter list dl [unfolded Inr, simplified] delete exit] run
        have t: "t = ?pre @ Ext Delete_all (outcome d) # ?post"
          by simp
        have got: "downloaded td = manifest_files media"
          and ok: "Ext k (Some e) \<notin> set td" for k e
          using download_run_returned [OF dr [unfolded Inr]] by simp_all
        have del: "deletes t = [Ext Delete_all (outcome d)]"
          by (simp add: t deletes_append td_del split: sum.splits)
        have pre: "downloaded ?pre = manifest_files media"
          by (simp add: downloaded_append got)
        have post: "downloaded ?post = []"
          by (simp split: sum.splits)
        have which: "y = outcome d" if "Ext Delete_all y \<in> set t" for y
          using that td_ev [of Delete_all y] by (auto simp: t split: sum.splits)
        have no_fail: "Ext (Download_file p l) (Some e) \<notin> set t" for p l e
          using ok [of "Download_file p l" e] by (auto simp: t split: sum.splits)
        have no_list: "Ext Get_media_list (Some e) \<notin> set t" for e
          using ok [of Get_media_list e] by (auto simp: t split: sum.splits)
        have second: "\<exists>g w2 media w3 pre post.
               gopro_aenter env w = (Inr g, w2)
               \<and> get_media_list env g w2 = (Inr media, w3)
               \<and> t = pre @ Ext Delete_all y # post
               \<and> downloaded pre = manifest_files media
               \<and> downloaded post = []
               \<and> (\<forall>p l e. Ext (Download_file p l) (Some e) \<notin> set t)"
          if "Ext Delete_all y \<in> set t" for y
          using enter list t pre post no_fail which [OF that] by blast
        from del second no_fail no_list show ?thesis
          by (simp (no_asm_simp)) blast
      qed
    qed
  qed
qed

lemma demo_manifest:
  "manifest_files demo_media =
     [(''100GOPRO/GX010001.MP4'', ''to_upload/GX010001.MP4''),
      (''100GOPRO/GX010002.MP4'', ''to_upload/GX010002.MP4''),
      (''101GOPRO/GOPR0003.JPG'', ''to_upload/GOPR0003.JPG'')]"
  by (simp add: manifest_files_def demo_media_def sep_def)

lemma demo_main:
  "main demo_env () =
     (Inl (GoProError ''timeout''), (),
      [Ext GoPro_enter None, Print Msg_connected, Ext Get_media_list None,
       Print (Msg_downloading ''100GOPRO/GX010001.MP4'' ''to_upload/GX010001.MP4''),
       Ext (Download_file ''100GOPRO/GX010001.MP4'' ''to_upload/GX010001.MP4'') None,
       Print (Msg_downloaded ''to_upload/GX010001.MP4''),
       Print (Msg_downloading ''100GOPRO/GX010002.MP4'' ''to_upload/GX010002.MP4''),
       Ext (Download_file ''100GOPRO/GX010002.MP4'' ''to_upload/GX010002.MP4'')
         (Some (GoProError ''timeout'')),
       Ext GoPro_exit None])"
  by (simp add: main_def download_each_def io_defs demo_env_def demo_media_def Let_def sep_def)

lemma demo_main_ok:
  "main demo_env_ok () =
     (Inr (), (),
      [Ext GoPro_enter None, Print Msg_connected, Ext Get_media_list None,
       Print (Msg_downloading ''100GOPRO/GX010001.MP4'' ''to_upload/GX010001.MP4''),
       Ext (Download_file ''100GOPRO/GX010001.MP4'' ''to_upload/GX010001.MP4'') None,
       Print (Msg_downloaded ''to_upload/GX010001.MP4''),
       Print (Msg_downloading ''100GOPRO/GX010002.MP4'' ''to_upload/GX010002.MP4''),
       Ext (Download_file ''100GOPRO/GX010002.MP4'' ''to_upload/GX010002.MP4'') None,
       Print (Msg_downloaded ''to_upload/GX010002.MP4''),
       Print (Msg_downloading ''101GOPRO/GOPR0003.JPG'' ''to_upload/GOPR0003.JPG''),
       Ext (Download_file ''101GOPRO/GOPR0003.JPG'' ''to_upload/GOPR0003.JPG'') None,
       Print (Msg_downloaded ''to_upload/GOPR0003.JPG''),
       Print Msg_deleting, Ext Delete_all None, Print Msg_all_deleted,
       Ext GoPro_exit None])"
  by (simp add: main_def download_each_def io_defs demo_env_ok_def demo_env_def demo_media_def
      Let_def sep_def)

text \<open>Unlike the uploads, the capture flow does write local files.\<close>

lemma main_writes_local_files:
  "mutates_local_fs (Ext (Download_file ''100GOPRO/GX010001.MP4'' ''to_upload/GX010001.MP4'') None)
   \<and> Ext (Download_file ''100GOPRO/GX010001.MP4'' ''to_upload/GX010001.MP4'') None
       \<in> set (snd (snd (main demo_env_ok ())))"
  by (simp add: demo_main_ok)

text \<open>
  In the sample world with the good camera the three files of the manifest are downloaded
  and one bulk-delete command follows; with the camera whose second download times out, no
  bulk-delete command is issued and the run raises the timeout.
\<close>

theorem main_delete_all_after_downloads_witness:
  "deletes (snd (snd (main demo_env_ok ()))) = [Ext Delete_all None]
   \<and> downloaded (snd (snd (main demo_env_ok ()))) =
       [(''100GOPRO/GX010001.MP4'', ''to_upload/GX010001.MP4''),
        (''100GOPRO/GX010002.MP4'', ''to_upload/GX010002.MP4''),
        (''101GOPRO/GOPR0003.JPG'', ''to_upload/GOPR0003.JPG'')]
   \<and> Ext (Download_file ''100GOPRO/GX010002.MP4'' ''to_upload/GX010002.MP4'')
        (Some (GoProError ''timeout'')) \<in> set (snd (snd (main demo_env ())))
   \<and> deletes (snd (snd (main demo_env ()))) = []
   \<and> fst (main demo_env ()) = Inl (GoProError ''timeout'')"
proof -
  let ?ok = "snd (snd (main demo_env_ok ()))"
  let ?bad = "snd (snd (main demo_env ()))"
  have issued: "Ext Delete_all None \<in> set ?ok"
    by (simp add: demo_main_ok)
  have enter: "gopro_aenter demo_env_ok () = (Inr WirelessGoPro, ())"
    and list: "get_media_list demo_env_ok g () = (Inr demo_media, ())" for g
    by (simp_all add: demo_env_ok_def demo_env_def)
  from main_delete_all_after_downloads [OF triple_eq, of demo_env_ok "()"] issued
  obtain g w2 media w3 pre post where
    "gopro_aenter demo_env_ok () = (Inr g, w2)"
    "get_media_list demo_env_ok g w2 = (Inr media, w3)"
    "?ok = pre @ Ext Delete_all None # post"
    "downloaded pre = manifest_files media" "downloaded post = []"
    by blast
  with enter list have "downloaded ?ok = manifest_files demo_media"
    by (simp add: downloaded_append)
  then have files: "downloaded ?ok =
       [(''100GOPRO/GX010001.MP4'', ''to_upload/GX010001.MP4''),
        (''100GOPRO/GX010002.MP4'', ''to_upload/GX010002.MP4''),
        (''101GOPRO/GOPR0003.JPG'', ''to_upload/GOPR0003.JPG'')]"
    by (simp only: demo_manifest)
  have once: "deletes ?ok = [Ext Delete_all None]"
    by (simp add: demo_main_ok)
  have failed: "Ext (Download_file ''100GOPRO/GX010002.MP4'' ''to_upload/GX010002.MP4'')
        (Some (GoProError ''timeout'')) \<in> set ?bad"
    and released: "Ext GoPro_exit None \<in> set ?bad"
    by (simp_all add: demo_main)
  from main_delete_all_after_downloads [OF triple_eq, of demo_env "()"] failed released
  have "deletes ?bad = [] \<and> fst (main demo_env ()) = Inl (GoProError ''timeout'')"
    by blast
  with files once failed show ?thesis
    by simp
qed


end
